theory Spec2Isabelle
  imports Main
begin

section \<open>Python string primitives\<close>

text \<open>
  Python strings are modelled as \<^typ>\<open>string\<close>, one \<^typ>\<open>char\<close> per code point, so the
  model covers the strings over the code points 0 to 255.  On these the character
  classes and case mappings below are those of \<^verbatim>\<open>str.isspace\<close> (which
  \<^verbatim>\<open>str.split\<close> and \<^verbatim>\<open>str.strip\<close> use), \<^verbatim>\<open>str.lower\<close>, \<^verbatim>\<open>str.upper\<close>,
  \<^verbatim>\<open>str.capitalize\<close> and the regular expression classes \<^verbatim>\<open>\d\<close> and \<^verbatim>\<open>\w\<close>, with
  one exception: the upper-case forms of the code points 181 and 255 lie above 255, and
  \<open>upper_char\<close> leaves these two unchanged.
\<close>

definition code :: "char \<Rightarrow> nat" where
  "code c = of_char c"

definition isspace :: "char \<Rightarrow> bool" where
  "isspace c = ((9 \<le> code c \<and> code c \<le> 13) \<or> (28 \<le> code c \<and> code c \<le> 32)
     \<or> code c = 133 \<or> code c = 160)"

text \<open>The characters with a lower-case form, and those with an upper-case form below 256.\<close>

definition isupper :: "char \<Rightarrow> bool" where
  "isupper c = ((65 \<le> code c \<and> code c \<le> 90)
     \<or> (192 \<le> code c \<and> code c \<le> 222 \<and> code c \<noteq> 215))"

definition islower :: "char \<Rightarrow> bool" where
  "islower c = ((97 \<le> code c \<and> code c \<le> 122)
     \<or> (224 \<le> code c \<and> code c \<le> 254 \<and> code c \<noteq> 247))"

text \<open>The class \<^verbatim>\<open>\d\<close>: the decimal digits.\<close>

definition isdigit :: "char \<Rightarrow> bool" where
  "isdigit c = (48 \<le> code c \<and> code c \<le> 57)"

text \<open>
  The class \<^verbatim>\<open>\w\<close>: the alphanumeric characters (letters, digits, superscript digits
  and fractions) and the underscore.
\<close>

definition isalnum :: "char \<Rightarrow> bool" where
  "isalnum c = (isdigit c \<or> isupper c \<or> islower c
     \<or> code c \<in> {170, 178, 179, 181, 185, 186, 188, 189, 190, 223, 255})"

definition isword :: "char \<Rightarrow> bool" where
  "isword c = (isalnum c \<or> c = CHR ''_'')"

definition lower_char :: "char \<Rightarrow> char" where
  "lower_char c = (if isupper c then char_of (code c + 32) else c)"

definition upper_char :: "char \<Rightarrow> char" where
  "upper_char c = (if islower c then char_of (code c - 32) else c)"

text \<open>
  The upper-case and the title-case form of a character; they are two characters long for
  the sharp s (code point 223).
\<close>

definition upper_chars :: "char \<Rightarrow> string" where
  "upper_chars c = (if code c = 223 then ''SS'' else [upper_char c])"

definition title_chars :: "char \<Rightarrow> string" where
  "title_chars c = (if code c = 223 then ''Ss'' else [upper_char c])"

definition lower :: "string \<Rightarrow> string" where
  "lower s = map lower_char s"

definition upper :: "string \<Rightarrow> string" where
  "upper s = concat (map upper_chars s)"

text \<open>\<^verbatim>\<open>str.capitalize()\<close>: first character in title case, the rest lower-cased.\<close>

fun capitalize :: "string \<Rightarrow> string" where
  "capitalize [] = []"
| "capitalize (c # cs) = title_chars c @ map lower_char cs"

text \<open>
  \<^verbatim>\<open>str.split()\<close> with no argument: the maximal runs of non-whitespace characters.
  The first argument is the word read so far.
\<close>

fun split_acc :: "string \<Rightarrow> string \<Rightarrow> string list" where
  "split_acc w [] = (if w = [] then [] else [w])"
| "split_acc w (c # cs) =
     (if isspace c then (if w = [] then split_acc [] cs else w # split_acc [] cs)
      else split_acc (w @ [c]) cs)"

definition split :: "string \<Rightarrow> string list" where
  "split s = split_acc [] s"

text \<open>\<^verbatim>\<open>sep.join(parts)\<close>.\<close>

fun join :: "string \<Rightarrow> string list \<Rightarrow> string" where
  "join sep [] = []"
| "join sep [x] = x"
| "join sep (x # y # ys) = x @ sep @ join sep (y # ys)"

text \<open>\<^verbatim>\<open>s.startswith(p)\<close> and the substring test \<^verbatim>\<open>sub in s\<close>.\<close>

fun startswith :: "string \<Rightarrow> string \<Rightarrow> bool" where
  "startswith s [] = True"
| "startswith [] (p # ps) = False"
| "startswith (c # cs) (p # ps) = (c = p \<and> startswith cs ps)"

fun contains :: "string \<Rightarrow> string \<Rightarrow> bool" where
  "contains [] sub = (sub = [])"
| "contains (c # cs) sub = (startswith (c # cs) sub \<or> contains cs sub)"

text \<open>\<^verbatim>\<open>s.replace(' ', '_')\<close>, for single characters.\<close>

definition replace_char :: "char \<Rightarrow> char \<Rightarrow> string \<Rightarrow> string" where
  "replace_char a b s = map (\<lambda>c. if c = a then b else c) s"

text \<open>\<^verbatim>\<open>s.strip()\<close> and \<^verbatim>\<open>s.split(',')\<close> (which keeps empty fields).\<close>

definition strip :: "string \<Rightarrow> string" where
  "strip s = rev (dropWhile isspace (rev (dropWhile isspace s)))"

fun split_on_acc :: "char \<Rightarrow> string \<Rightarrow> string \<Rightarrow> string list" where
  "split_on_acc d w [] = [w]"
| "split_on_acc d w (c # cs) =
     (if c = d then w # split_on_acc d [] cs else split_on_acc d (w @ [c]) cs)"

definition split_on :: "char \<Rightarrow> string \<Rightarrow> string list" where
  "split_on d s = split_on_acc d [] s"

text \<open>
  \<^verbatim>\<open>re.search(r'\b\d{4}\b', s)\<close>: the leftmost run of exactly four digits with a word
  boundary on each side.  The first argument says whether the character before the
  current position is a word character.
\<close>

definition year_here :: "string \<Rightarrow> bool" where
  "year_here s = (4 \<le> length s \<and> list_all isdigit (take 4 s) \<and>
     (case drop 4 s of [] \<Rightarrow> True | c # _ \<Rightarrow> \<not> isword c))"

fun search_year_from :: "bool \<Rightarrow> string \<Rightarrow> string option" where
  "search_year_from prev [] = None"
| "search_year_from prev (c # cs) =
     (if \<not> prev \<and> year_here (c # cs) then Some (take 4 (c # cs))
      else search_year_from (isword c) cs)"

definition search_year :: "string \<Rightarrow> string option" where
  "search_year s = search_year_from False s"


section \<open>Exceptions\<close>

text \<open>
  The exceptions that reach a caller.  \<open>ProviderError\<close> stands for whatever an external
  library (document loader, embedding or generation provider) raises; its argument is the
  message.
\<close>

datatype py_exception = ValueError string | TypeError string | ProviderError string

fun str_of_exception :: "py_exception \<Rightarrow> string" where
  "str_of_exception (ValueError m) = m"
| "str_of_exception (TypeError m) = m"
| "str_of_exception (ProviderError m) = m"

section \<open>Institution lookup (utils/institution.py)\<close>

record InstitutionDetails =
  name :: string
  founder :: string
  founded_year :: string
  branches :: "string list"
  employees :: string
  summary :: string

subsection \<open>The scraped page\<close>

text \<open>
  What \<^verbatim>\<open>fetch_from_wikipedia\<close> reads off the parsed page: whether an element with id
  \<^verbatim>\<open>disambigbox\<close> exists, the text of the title element (if any), the rows of the first
  \<^verbatim>\<open>table.infobox\<close> (if any) as the stripped texts of each row's first \<^verbatim>\<open>th\<close> and
  first \<^verbatim>\<open>td\<close>, the stripped texts of the \<^verbatim>\<open>p\<close> elements in document order, and the
  stripped text of \<^verbatim>\<open>h1#firstHeading\<close> (if any).
\<close>

record soup =
  disambigbox :: bool
  title_text :: "string option"
  infobox :: "(string option \<times> string option) list option"
  paragraphs :: "string list"
  firstHeading :: "string option"

text \<open>
  The outcome of \<^verbatim>\<open>requests.get\<close> followed by \<^verbatim>\<open>raise_for_status\<close> and parsing:
  a timeout, another \<^verbatim>\<open>RequestException\<close> (HTTP status or network error), any other
  exception, or a parsed page.  The web is a function from URLs to outcomes.
\<close>

datatype http_result = Timeout | RequestException string | OtherException string | Page soup

type_synonym web = "string \<Rightarrow> http_result"

definition normalized_name :: "string \<Rightarrow> string" where
  "normalized_name s = join '' '' (map capitalize (split s))"

definition wikipedia_url :: "string \<Rightarrow> string" where
  "wikipedia_url institution_name =
     (let normalized_search_term = normalized_name institution_name;
          normalized_search_term =
            (if upper normalized_search_term = ''JNU'' then ''Jawaharlal_Nehru_University''
             else if upper normalized_search_term = ''IIT BOMBAY''
               then ''Indian_Institute_of_Technology_Bombay''
             else if upper normalized_search_term = ''AIIMS DELHI''
               then ''All_India_Institute_of_Medical_Sciences,_Delhi''
             else normalized_search_term)
      in ''https://en.wikipedia.org/wiki/'' @ replace_char CHR '' '' CHR ''_'' normalized_search_term)"

definition extract_year :: "string \<Rightarrow> string" where
  "extract_year data_text = (case search_year data_text of Some y \<Rightarrow> y | None \<Rightarrow> data_text)"

definition extract_branches :: "string \<Rightarrow> string list" where
  "extract_branches data_text =
     map strip (filter (\<lambda>b. strip b \<noteq> [] \<and> \<not> contains b ''Campus'') (split_on CHR '','' data_text))"

text \<open>One iteration of the loop over the infobox rows; the state is the record being filled.\<close>

fun parse_row :: "InstitutionDetails \<Rightarrow> string option \<times> string option \<Rightarrow> InstitutionDetails" where
  "parse_row st (Some header_text, Some data_text) =
     (if contains header_text ''Founder'' then st\<lparr>founder := data_text\<rparr>
      else if contains header_text ''Established'' \<or> contains header_text ''Founded''
        then st\<lparr>founded_year := extract_year data_text\<rparr>
      else if contains header_text ''Campus'' \<or> contains header_text ''Location''
           \<or> contains header_text ''Branches''
        then st\<lparr>branches := branches st @ extract_branches data_text\<rparr>
      else if contains header_text ''Employees'' \<or> contains header_text ''Staff''
        then st\<lparr>employees := data_text\<rparr>
      else if contains header_text ''President'' \<or> contains header_text ''Director''
        then st
      else st)"
| "parse_row st (_, _) = st"

definition qualifies :: "string \<Rightarrow> bool" where
  "qualifies text = (text \<noteq> [] \<and> \<not> startswith text ''Coordinates:''
     \<and> \<not> contains text ''For other uses,''
     \<and> \<not> contains text ''From Wikipedia, the free encyclopedia'')"

text \<open>The loop over the paragraphs, which stops once four lines are collected.\<close>

fun collect_summary :: "string list \<Rightarrow> string list \<Rightarrow> string list" where
  "collect_summary summary_lines [] = summary_lines"
| "collect_summary summary_lines (p # ps) =
     (let summary_lines = (if qualifies p then summary_lines @ [p] else summary_lines)
      in if 4 \<le> length summary_lines then summary_lines
         else collect_summary summary_lines ps)"

definition not_available :: string where
  "not_available = ''Not Available''"

definition no_summary :: string where
  "no_summary = ''No summary found.''"

text \<open>
  The body of the \<^verbatim>\<open>try\<close> block once the page is parsed.  A page without a title
  element makes \<^verbatim>\<open>soup.title.text\<close> raise, which the last handler turns into
  \<^verbatim>\<open>None\<close>.  \<^verbatim>\<open>list(set(found_branches))\<close> removes duplicates; the order Python gives
  the result is unspecified, the model keeps the order of \<^const>\<open>remdups\<close>.
\<close>

definition scrape_page :: "string \<Rightarrow> soup \<Rightarrow> InstitutionDetails option" where
  "scrape_page institution_name sp =
     (if disambigbox sp then None
      else case title_text sp of
        None \<Rightarrow> None
      | Some t \<Rightarrow>
          if contains (lower t) ''disambiguation'' then None
          else
            let st0 = \<lparr>name = institution_name, founder = not_available,
                       founded_year = not_available, branches = [],
                       employees = not_available, summary = no_summary\<rparr>;
                st = (case infobox sp of None \<Rightarrow> st0 | Some rows \<Rightarrow> foldl parse_row st0 rows);
                summary_lines = collect_summary [] (paragraphs sp);
                found_summary = (if summary_lines \<noteq> [] then join [CHR 0x0A] (take 4 summary_lines)
                                 else no_summary);
                found_name = (case firstHeading sp of Some h \<Rightarrow> h | None \<Rightarrow> name st)
            in Some (st\<lparr>name := found_name, branches := remdups (branches st),
                        summary := found_summary\<rparr>))"

definition fetch_from_wikipedia :: "web \<Rightarrow> string \<Rightarrow> InstitutionDetails option" where
  "fetch_from_wikipedia w institution_name =
     (case w (wikipedia_url institution_name) of
        Timeout \<Rightarrow> None
      | RequestException e \<Rightarrow> None
      | OtherException e \<Rightarrow> None
      | Page sp \<Rightarrow> scrape_page institution_name sp)"

subsection \<open>The static catalog\<close>

text \<open>
  \<^verbatim>\<open>HARDCODED_INSTITUTION_DATA\<close>: a dictionary literal, kept as an association list in
  insertion order because the alias loop iterates it in that order.
\<close>

definition iit_bombay_details :: InstitutionDetails where
  "iit_bombay_details =
     \<lparr>name = ''Indian Institute of Technology Bombay'',
      founder = ''Dr. Bhabha'',
      founded_year = ''1958'',
      branches = [''Mumbai''],
      employees = ''5000+'',
      summary =
        ''The Indian Institute of Technology Bombay (IIT Bombay) is one of India's most ''
        @ ''prestigious engineering and research institutions, established in 1958. Located ''
        @ ''in Powai, Mumbai, its sprawling campus is a hub of academic excellence and ''
        @ ''innovation. IIT Bombay is consistently ranked among the top technical ''
        @ ''universities in India and globally, attracting brilliant minds from across the ''
        @ ''country. It offers a wide array of undergraduate, postgraduate, and doctoral ''
        @ ''programs in engineering, science, humanities, and management.''\<rparr>"

definition iisc_details :: InstitutionDetails where
  "iisc_details =
     \<lparr>name = ''Indian Institute of Science'',
      founder = ''Jamsetji Tata'',
      founded_year = ''1909'',
      branches = [''Bengaluru''],
      employees = ''3000+'',
      summary =
        ''The Indian Institute of Science (IISc), located in Bengaluru, is India's premier''
        @ '' institution for advanced scientific and technological research and education. ''
        @ ''It was established in 1909 with the visionary support of Jamsetji Tata and the ''
        @ ''then Maharaja of Mysore, becoming a cornerstone of India's scientific progress. ''
        @ ''IISc is internationally recognized for its rigorous academic programs, ''
        @ ''pioneering research, and significant contributions to fundamental and applied ''
        @ ''sciences. The institute offers a wide range of master's and doctoral programs in''
        @ '' various disciplines.''\<rparr>"

definition aiims_delhi_details :: InstitutionDetails where
  "aiims_delhi_details =
     \<lparr>name = ''All India Institute of Medical Sciences, Delhi'',
      founder = ''Government of India'',
      founded_year = ''1956'',
      branches = [''New Delhi''],
      employees = ''10000+'',
      summary =
        ''The All India Institute of Medical Sciences, New Delhi (AIIMS Delhi) stands as ''
        @ ''India's leading medical institution, established in 1956 by the Government of ''
        @ ''India. It operates as a public medical research university and hospital, setting''
        @ '' national benchmarks for medical education, research, and patient care. AIIMS ''
        @ ''Delhi is consistently ranked as the top medical college in the country, renowned''
        @ '' for its highly specialized clinical services and advanced research facilities. ''
        @ ''It offers comprehensive undergraduate and postgraduate medical and paramedical ''
        @ ''courses.''\<rparr>"

definition jnu_details :: InstitutionDetails where
  "jnu_details =
     \<lparr>name = ''Jawaharlal Nehru University'',
      founder = ''Government of India'',
      founded_year = ''1969'',
      branches = [''New Delhi''],
      employees = ''1200+'',
      summary =
        ''Jawaharlal Nehru University (JNU) is a public central university located in New ''
        @ ''Delhi, India. It was established in 1969 and is known for its liberal arts and ''
        @ ''social science programs. JNU is one of the leading universities in India, ''
        @ ''recognized for its research in various fields. It attracts students and faculty ''
        @ ''from across the globe.''\<rparr>"

definition stanford_details :: InstitutionDetails where
  "stanford_details =
     \<lparr>name = ''Stanford University'',
      founder = ''Leland Stanford, Jane Stanford'',
      founded_year = ''1885'',
      branches = [''Stanford, California''],
      employees = ''20000+'',
      summary =
        ''Stanford University, officially Leland Stanford Junior University, is a private ''
        @ ''research university in Stanford, California. It was founded in 1885 by Leland ''
        @ ''and Jane Stanford in memory of their son, Leland Stanford Jr. The university is ''
        @ ''known for its academic excellence, research, and proximity to Silicon Valley, ''
        @ ''fostering innovation and entrepreneurship. It offers programs in a wide range of''
        @ '' disciplines.''\<rparr>"

definition mit_details :: InstitutionDetails where
  "mit_details =
     \<lparr>name = ''Massachusetts Institute of Technology'',
      founder = ''William Barton Rogers'',
      founded_year = ''1861'',
      branches = [''Cambridge, Massachusetts''],
      employees = ''12000+'',
      summary =
        ''The Massachusetts Institute of Technology (MIT) is a private land-grant research''
        @ '' university in Cambridge, Massachusetts. Established in 1861, MIT is known for ''
        @ ''its cutting-edge research and education in science, engineering, and technology.''
        @ '' It has played a key role in the development of modern technology and scientific''
        @ '' advancements. MIT consistently ranks among the world's top universities.''\<rparr>"

definition HARDCODED_INSTITUTION_DATA :: "(string \<times> InstitutionDetails) list" where
  "HARDCODED_INSTITUTION_DATA =
     [(''Indian Institute of Technology Bombay'', iit_bombay_details),
      (''Indian Institute of Science'', iisc_details),
      (''All India Institute of Medical Sciences, Delhi'', aiims_delhi_details),
      (''Jawaharlal Nehru University'', jnu_details),
      (''Stanford University'', stanford_details),
      (''Massachusetts Institute of Technology'', mit_details)]"

subsection \<open>The resolver\<close>

text \<open>
  Steps 2 and 3 of \<^verbatim>\<open>get_institution_info\<close> and the final \<^verbatim>\<open>raise\<close>: the exact
  lookup of the normalized name, then the loop over the catalog that returns at the first
  key the normalized name equals or is contained in, both lower-cased.
\<close>

definition alias_match :: "string \<Rightarrow> string \<times> InstitutionDetails \<Rightarrow> bool" where
  "alias_match normalized_input_name kd =
     (lower normalized_input_name = lower (fst kd)
      \<or> contains (lower (fst kd)) (lower normalized_input_name))"

definition not_found_message :: "string \<Rightarrow> string" where
  "not_found_message institution_name =
     ''No data available for '' @ [CHR 0x27] @ institution_name @ [CHR 0x27]
       @ '' from web or hardcoded sources.''"

definition hardcoded_fallback :: "string \<Rightarrow> string \<Rightarrow> py_exception + InstitutionDetails" where
  "hardcoded_fallback institution_name normalized_input_name =
     (case map_of HARDCODED_INSTITUTION_DATA normalized_input_name of
        Some details \<Rightarrow> Inr details
      | None \<Rightarrow>
          (case find (alias_match normalized_input_name) HARDCODED_INSTITUTION_DATA of
             Some (key, details) \<Rightarrow> Inr details
           | None \<Rightarrow> Inl (ValueError (not_found_message institution_name))))"

text \<open>The completeness test applied to a scraped record.\<close>

definition complete :: "InstitutionDetails \<Rightarrow> bool" where
  "complete wiki_details =
     (summary wiki_details \<noteq> no_summary \<and> founded_year wiki_details \<noteq> not_available)"

text \<open>
  \<^verbatim>\<open>get_institution_info\<close>.  \<^verbatim>\<open>fetch_from_wikipedia\<close> catches every exception
  itself, so the \<^verbatim>\<open>except ValueError\<close> around the call has nothing to catch.
\<close>

definition get_institution_info :: "web \<Rightarrow> string \<Rightarrow> py_exception + InstitutionDetails" where
  "get_institution_info w institution_name =
     (let normalized_input_name = normalized_name institution_name
      in (case fetch_from_wikipedia w normalized_input_name of
            Some wiki_details \<Rightarrow>
              if complete wiki_details then Inr wiki_details
              else hardcoded_fallback institution_name normalized_input_name
          | None \<Rightarrow> hardcoded_fallback institution_name normalized_input_name))"

section \<open>Document question answering (utils/doc_qa.py, utils/ipc_bot.py)\<close>

text \<open>
  The loaders, the text splitter, the embedding and generation providers and the vector
  store are library code; they are parameters of the model.  A loader is built from a
  path and then asked to load; \<open>load\<close> stands for both steps.  Each call either returns
  or raises.
\<close>

type_synonym document = string

datatype loader = PyPDFLoader string | TextLoader string

record ('emb, 'llm, 'db) capabilities =
  CohereEmbeddings :: "string option \<Rightarrow> py_exception + 'emb"
  Cohere :: "string option \<Rightarrow> py_exception + 'llm"
  load :: "loader \<Rightarrow> py_exception + document list"
  split_documents :: "nat \<Rightarrow> nat \<Rightarrow> document list \<Rightarrow> document list"
  FAISS_from_documents :: "document list \<Rightarrow> 'emb \<Rightarrow> py_exception + 'db"
  run :: "'llm \<Rightarrow> 'db \<Rightarrow> string \<Rightarrow> py_exception + string"

datatype ('llm, 'db) chain = RetrievalQA 'llm 'db

type_synonym environ = "string \<Rightarrow> string option"

text \<open>The steps shared by both set-up functions once the embeddings and the loader exist.\<close>

definition build_chain ::
  "('emb, 'llm, 'db) capabilities \<Rightarrow> string option \<Rightarrow> 'emb \<Rightarrow> loader
    \<Rightarrow> py_exception + ('llm, 'db) chain" where
  "build_chain caps api_key embeddings ldr =
     (case load caps ldr of
        Inl e \<Rightarrow> Inl e
      | Inr documents \<Rightarrow>
          (let texts = split_documents caps 1000 200 documents
           in (case FAISS_from_documents caps texts embeddings of
                 Inl e \<Rightarrow> Inl e
               | Inr db \<Rightarrow>
                   (case Cohere caps api_key of
                      Inl e \<Rightarrow> Inl e
                    | Inr l \<Rightarrow> Inr (RetrievalQA l db)))))"

definition setup_doc_qa ::
  "environ \<Rightarrow> ('emb, 'llm, 'db) capabilities \<Rightarrow> string \<Rightarrow> string
    \<Rightarrow> py_exception + ('llm, 'db) chain" where
  "setup_doc_qa env caps file_path file_type =
     (case CohereEmbeddings caps (env ''COHERE_API_KEY'') of
        Inl e \<Rightarrow> Inl e
      | Inr embeddings \<Rightarrow>
          (let ldr = (if file_type = ''pdf'' then PyPDFLoader file_path else TextLoader file_path)
           in build_chain caps (env ''COHERE_API_KEY'') embeddings ldr))"

definition setup_ipc_qa ::
  "environ \<Rightarrow> ('emb, 'llm, 'db) capabilities \<Rightarrow> string
    \<Rightarrow> py_exception + ('llm, 'db) chain" where
  "setup_ipc_qa env caps file_path =
     (let cohere_api_key = env ''COHERE_API_KEY''
      in if cohere_api_key = None \<or> cohere_api_key = Some []
         then Inl (ValueError ''COHERE_API_KEY environment variable not set.'')
         else (case CohereEmbeddings caps cohere_api_key of
                 Inl e \<Rightarrow> Inl e
               | Inr embeddings \<Rightarrow>
                   build_chain caps cohere_api_key embeddings (PyPDFLoader file_path)))"

text \<open>
  The module-level initialisation of \<^verbatim>\<open>utils/ipc_bot.py\<close>: any exception of the set-up
  is printed and \<^verbatim>\<open>ipc_qa\<close> is bound to \<^verbatim>\<open>None\<close>.
\<close>

definition ipc_qa :: "environ \<Rightarrow> ('emb, 'llm, 'db) capabilities \<Rightarrow> ('llm, 'db) chain option" where
  "ipc_qa env caps =
     (case setup_ipc_qa env caps ''ipc.pdf'' of Inl e \<Rightarrow> None | Inr c \<Rightarrow> Some c)"

text \<open>
  The call \<^verbatim>\<open>ipc_qa(ipc_question)\<close> of \<^verbatim>\<open>app.py\<close>.  Calling \<^verbatim>\<open>None\<close> raises
  \<^verbatim>\<open>TypeError\<close>.
\<close>

definition none_not_callable :: string where
  "none_not_callable = [CHR 0x27] @ ''NoneType'' @ [CHR 0x27] @ '' object is not callable''"

definition call_ipc_qa ::
  "('emb, 'llm, 'db) capabilities \<Rightarrow> ('llm, 'db) chain option \<Rightarrow> string
    \<Rightarrow> py_exception + string" where
  "call_ipc_qa caps qa ipc_question =
     (case qa of
        None \<Rightarrow> Inl (TypeError none_not_callable)
      | Some (RetrievalQA l db) \<Rightarrow> run caps l db ipc_question)"

text \<open>
  The guarded use of the same object under \<^verbatim>\<open>__main__\<close> in \<^verbatim>\<open>utils/ipc_bot.py\<close>:
  queries run only \<^verbatim>\<open>if ipc_qa\<close>; otherwise a fixed message is printed.
\<close>

definition guarded_query ::
  "('emb, 'llm, 'db) capabilities \<Rightarrow> ('llm, 'db) chain option \<Rightarrow> string
    \<Rightarrow> string + (py_exception + string)" where
  "guarded_query caps qa query =
     (case qa of
        None \<Rightarrow> Inl ''QA system not initialized. Cannot process queries.''
      | Some (RetrievalQA l db) \<Rightarrow> Inr (run caps l db (lower query)))"

section \<open>The chunker of the design\<close>

record DocumentChunk =
  chunk_text :: string
  sequence_index :: nat
  source_offset :: nat

text \<open>
  Modelled from the spec: the splitter the code calls
  (\<^verbatim>\<open>CharacterTextSplitter(chunk_size=1000, chunk_overlap=200)\<close>) is library code whose
  source is not part of the repository.  The design describes it as a walk over the text
  producing chunks of \<open>chunk_size\<close> characters, advancing the start position by
  \<open>chunk_size - overlap\<close> each step, the final chunk possibly shorter; a text shorter
  than \<open>chunk_size\<close> yields exactly one chunk.  The walk stops with the chunk that reaches
  the end of the text.
\<close>

function walk :: "string \<Rightarrow> nat \<Rightarrow> nat \<Rightarrow> nat \<Rightarrow> nat \<Rightarrow> DocumentChunk list" where
  "walk T chunk_size overlap i start =
     (if length T \<le> start + chunk_size \<or> chunk_size \<le> overlap
      then [\<lparr>chunk_text = take chunk_size (drop start T), sequence_index = i,
             source_offset = start\<rparr>]
      else \<lparr>chunk_text = take chunk_size (drop start T), sequence_index = i,
             source_offset = start\<rparr>
           # walk T chunk_size overlap (i + 1) (start + (chunk_size - overlap)))"
  by pat_completeness auto
termination
  by (relation "measure (\<lambda>(T, chunk_size, overlap, i, start). length T - start)") auto

text \<open>The contract's preconditions: \<open>chunk_size > 0\<close> and \<open>0 \<le> overlap < chunk_size\<close>.\<close>

definition split_text :: "string \<Rightarrow> nat \<Rightarrow> nat \<Rightarrow> DocumentChunk list option" where
  "split_text T chunk_size overlap =
     (if chunk_size = 0 \<or> chunk_size \<le> overlap then None
      else Some (walk T chunk_size overlap 0 0))"

section \<open>Vocabulary of the statements\<close>

text \<open>
  The scrape stage yields no accepted record: \<^verbatim>\<open>fetch_from_wikipedia\<close> returns
  \<^verbatim>\<open>None\<close>, or a record that fails the completeness test.
\<close>

definition no_accepted_scrape :: "web \<Rightarrow> string \<Rightarrow> bool" where
  "no_accepted_scrape w institution_name =
     (case fetch_from_wikipedia w (normalized_name institution_name) of
        Some wiki_details \<Rightarrow> \<not> complete wiki_details
      | None \<Rightarrow> True)"

text \<open>The request ended in one of the three exception handlers.\<close>

fun scrape_failed :: "http_result \<Rightarrow> bool" where
  "scrape_failed Timeout = True"
| "scrape_failed (RequestException e) = True"
| "scrape_failed (OtherException e) = True"
| "scrape_failed (Page sp) = False"

text \<open>A web in which every request times out.\<close>

definition offline :: web where
  "offline = (\<lambda>url. Timeout)"

text \<open>A web that answers every request with the same HTTP error.\<close>

definition not_found_web :: web where
  "not_found_web = (\<lambda>url. RequestException ''404 Client Error: Not Found'')"

text \<open>An ordinary article page with the given infobox rows and paragraphs, and a web serving it.\<close>

definition article :: "(string option \<times> string option) list \<Rightarrow> string list \<Rightarrow> soup" where
  "article rows paras =
     \<lparr>disambigbox = False, title_text = Some ''Example - Wikipedia'',
      infobox = Some rows, paragraphs = paras, firstHeading = None\<rparr>"

definition serving :: "soup \<Rightarrow> web" where
  "serving sp = (\<lambda>url. Page sp)"

text \<open>
  Library stand-ins for concrete runs: the PDF loader rejects the file, the text loader
  returns its content as one document, the splitter keeps the documents, the store keeps
  the texts, and a query returns the stored texts.
\<close>

definition text_only_caps :: "(unit, unit, document list) capabilities" where
  "text_only_caps =
     \<lparr>CohereEmbeddings = (\<lambda>key. Inr ()),
      Cohere = (\<lambda>key. Inr ()),
      load = (\<lambda>ldr. case ldr of
                PyPDFLoader p \<Rightarrow> Inl (ProviderError ''not a PDF file'')
              | TextLoader p \<Rightarrow> Inr [''plain text payload'']),
      split_documents = (\<lambda>chunk_size chunk_overlap documents. documents),
      FAISS_from_documents = (\<lambda>texts embeddings. Inr texts),
      run = (\<lambda>l db question. Inr (concat db))\<rparr>"

definition with_key :: environ where
  "with_key = (\<lambda>var. if var = ''COHERE_API_KEY'' then Some ''secret'' else None)"

definition without_key :: environ where
  "without_key = (\<lambda>var. None)"

text \<open>
  A row that reaches the assignment of the founding year: its header contains "Established"
  or "Founded" and does not contain "Founder", which the chain tests first.
\<close>

definition founded_row :: "string option \<times> string option \<Rightarrow> bool" where
  "founded_row row =
     (case row of
        (Some header_text, Some data_text) \<Rightarrow>
          \<not> contains header_text ''Founder''
          \<and> (contains header_text ''Established'' \<or> contains header_text ''Founded'')
      | _ \<Rightarrow> False)"

text \<open>The labels the chain assigns a field for.\<close>

definition listed_labels :: "string list" where
  "listed_labels = [''Founder'', ''Established'', ''Founded'', ''Campus'', ''Location'',
     ''Branches'', ''Employees'', ''Staff'']"

text \<open>The keys of the catalog, in insertion order.\<close>

definition catalog_keys :: "string list" where
  "catalog_keys = [''Indian Institute of Technology Bombay'', ''Indian Institute of Science'',
     ''All India Institute of Medical Sciences, Delhi'', ''Jawaharlal Nehru University'',
     ''Stanford University'', ''Massachusetts Institute of Technology'']"

section \<open>Properties\<close>

subsection \<open>Shared facts about the resolver\<close>

lemma fallback_when_no_scrape:
  "no_accepted_scrape w nm \<Longrightarrow>
   get_institution_info w nm = hardcoded_fallback nm (normalized_name nm)"
  by (simp add: no_accepted_scrape_def get_institution_info_def Let_def split: option.splits)

lemma offline_no_scrape: "no_accepted_scrape offline nm"
  by (simp add: no_accepted_scrape_def offline_def fetch_from_wikipedia_def)

lemma failed_no_scrape:
  "scrape_failed (w (wikipedia_url (normalized_name nm))) \<Longrightarrow> no_accepted_scrape w nm"
  by (cases "w (wikipedia_url (normalized_name nm))")
     (simp_all add: no_accepted_scrape_def fetch_from_wikipedia_def)

lemma catalog_complete:
  "kd \<in> set HARDCODED_INSTITUTION_DATA \<Longrightarrow> complete (snd kd)"
  by (auto simp: HARDCODED_INSTITUTION_DATA_def complete_def no_summary_def not_available_def
      iit_bombay_details_def iisc_details_def aiims_delhi_details_def jnu_details_def
      stanford_details_def mit_details_def)

lemma fallback_complete:
  assumes "hardcoded_fallback nm n = Inr d"
  shows "complete d"
proof (cases "map_of HARDCODED_INSTITUTION_DATA n")
  case (Some d')
  with assms have "d' = d" by (simp add: hardcoded_fallback_def)
  with Some have "(n, d) \<in> set HARDCODED_INSTITUTION_DATA" by (simp add: map_of_SomeD)
  from catalog_complete[OF this] show ?thesis by simp
next
  case None
  with assms obtain k where f: "find (alias_match n) HARDCODED_INSTITUTION_DATA = Some (k, d)"
    by (auto simp: hardcoded_fallback_def split: option.splits)
  then have "(k, d) \<in> set HARDCODED_INSTITUTION_DATA"
    by (auto simp: find_Some_iff)
  from catalog_complete[OF this] show ?thesis by simp
qed

text \<open>Facts about the catalog and the loop over it.\<close>

lemma keys_of_catalog: "map fst HARDCODED_INSTITUTION_DATA = catalog_keys"
  by (simp add: HARDCODED_INSTITUTION_DATA_def catalog_keys_def)

lemma distinct_keys: "distinct (map fst HARDCODED_INSTITUTION_DATA)"
  unfolding keys_of_catalog by (simp add: catalog_keys_def)

lemma startswith_self: "startswith s s"
  by (induction s) simp_all

lemma contains_self: "contains s s"
  by (cases s) (simp_all add: startswith_self)

lemma contains_empty: "contains s []"
  by (cases s) simp_all

lemma find_on_keys:
  "map_option fst (find (\<lambda>kd. Q (fst kd)) xs) = find Q (map fst xs)"
  by (induction xs) auto

lemma alias_is_substring:
  "alias_match n kd = contains (lower (fst kd)) (lower n)"
  by (auto simp: alias_match_def contains_self)

lemma key_first_for_itself:
  "list_all (\<lambda>k. find (\<lambda>k'. contains (lower k') (lower k)) catalog_keys = Some k) catalog_keys"
  by code_simp



text \<open>
  The static stages return the record of the first key, in catalog order, that contains the
  normalized name case-insensitively: a key is the first key that contains itself, so the
  exact lookup and the loop agree.
\<close>

lemma first_substring_entry:
  assumes "find (\<lambda>kd. contains (lower (fst kd)) (lower n)) HARDCODED_INSTITUTION_DATA
           = Some (key, details)"
  shows "hardcoded_fallback nm n = Inr details"
proof (cases "map_of HARDCODED_INSTITUTION_DATA n")
  case None
  have "find (alias_match n) HARDCODED_INSTITUTION_DATA = Some (key, details)"
    using assms by (simp add: alias_is_substring[abs_def])
  with None show ?thesis by (simp add: hardcoded_fallback_def)
next
  case (Some d)
  then have "n \<in> set catalog_keys"
    using keys_of_catalog by (metis map_of_SomeD set_zip_leftD zip_map_fst_snd)
  with key_first_for_itself
  have "find (\<lambda>k'. contains (lower k') (lower n)) catalog_keys = Some n"
    by (simp add: list_all_iff)
  then have "map_option fst (find (\<lambda>kd. contains (lower (fst kd)) (lower n))
                HARDCODED_INSTITUTION_DATA) = Some n"
    using find_on_keys[of "\<lambda>k'. contains (lower k') (lower n)" HARDCODED_INSTITUTION_DATA]
      keys_of_catalog by simp
  with assms have "key = n" by simp
  moreover from assms have "(key, details) \<in> set HARDCODED_INSTITUTION_DATA"
    by (auto simp: find_Some_iff)
  ultimately have "map_of HARDCODED_INSTITUTION_DATA n = Some details"
    using distinct_keys by simp
  with Some show ?thesis by (simp add: hardcoded_fallback_def)
qed

text \<open>A name of whitespace only has no words.\<close>

lemma split_acc_all_space:
  "list_all isspace s \<Longrightarrow> split_acc w s = (if w = [] then [] else [w])"
  by (induction s arbitrary: w) simp_all

lemma normalized_blank: "list_all isspace s \<Longrightarrow> normalized_name s = []"
  by (simp add: normalized_name_def split_def split_acc_all_space)

subsection \<open>Exhaustion\<close>

text \<open>
  Claim C2.  Whenever the scrape stage yields no accepted record, the normalized name is
  not a key of the catalog, and no catalog key equals or contains the normalized name
  case-insensitively, \<^const>\<open>get_institution_info\<close> raises the \<open>ValueError\<close> whose message
  carries the name as it was given; no other outcome is possible.
\<close>

theorem resolver_exhaustion:
  assumes "no_accepted_scrape w institution_name"
    and "normalized_name institution_name \<notin> fst ` set HARDCODED_INSTITUTION_DATA"
    and "\<forall>kd \<in> set HARDCODED_INSTITUTION_DATA.
           \<not> (lower (normalized_name institution_name) = lower (fst kd)
              \<or> contains (lower (fst kd)) (lower (normalized_name institution_name)))"
  shows "get_institution_info w institution_name
         = Inl (ValueError (''No data available for '' @ [CHR 0x27] @ institution_name
                  @ [CHR 0x27] @ '' from web or hardcoded sources.''))"
proof -
  have exact: "map_of HARDCODED_INSTITUTION_DATA (normalized_name institution_name) = None"
    using assms(2) by (simp add: map_of_eq_None_iff)
  have loop: "find (alias_match (normalized_name institution_name)) HARDCODED_INSTITUTION_DATA
              = None"
    using assms(3) by (auto simp: find_None_iff alias_match_def)
  show ?thesis
    using fallback_when_no_scrape[OF assms(1)] exact loop
    by (simp add: hardcoded_fallback_def not_found_message_def)
qed

theorem resolver_exhaustion_witness:
  "get_institution_info offline ''Fictional University of Nowhere XYZ''
   = Inl (ValueError ''No data available for 'Fictional University of Nowhere XYZ' from web or hardcoded sources.'')"
proof -
  have h2: "normalized_name ''Fictional University of Nowhere XYZ''
              \<notin> fst ` set HARDCODED_INSTITUTION_DATA"
    by code_simp
  have h3: "\<forall>kd \<in> set HARDCODED_INSTITUTION_DATA.
           \<not> (lower (normalized_name ''Fictional University of Nowhere XYZ'') = lower (fst kd)
              \<or> contains (lower (fst kd))
                   (lower (normalized_name ''Fictional University of Nowhere XYZ'')))"
    by code_simp
  show ?thesis
    using resolver_exhaustion[OF offline_no_scrape h2 h3] by simp
qed

subsection \<open>Scrape failures fall through\<close>

text \<open>
  Claim C5.  When the request for the page ends in a timeout, an HTTP or network error, or
  any other exception, the error does not reach the caller of \<^const>\<open>get_institution_info\<close>
  and the static stages decide.  A catalog entry stored under the normalized name is
  returned.  More generally, when some catalog key equals or contains the normalized name
  case-insensitively, the record of the first such key in catalog order is returned.  The
  call fails only when no catalog key matches, and then with the \<open>ValueError\<close> of
  exhaustion that carries the name as given, never with the error of the request.
\<close>

theorem scrape_errors_not_surfaced:
  assumes "scrape_failed (w (wikipedia_url (normalized_name institution_name)))"
  shows "(\<forall>details. map_of HARDCODED_INSTITUTION_DATA (normalized_name institution_name)
                          = Some details
               \<longrightarrow> get_institution_info w institution_name = Inr details)
         \<and> (\<forall>key details.
               find (\<lambda>kd. lower (normalized_name institution_name) = lower (fst kd)
                          \<or> contains (lower (fst kd)) (lower (normalized_name institution_name)))
                 HARDCODED_INSTITUTION_DATA = Some (key, details)
               \<longrightarrow> get_institution_info w institution_name = Inr details)
         \<and> (\<forall>e. get_institution_info w institution_name = Inl e
               \<longrightarrow> e = ValueError (''No data available for '' @ [CHR 0x27] @ institution_name
                                     @ [CHR 0x27] @ '' from web or hardcoded sources.'')
                   \<and> normalized_name institution_name \<notin> fst ` set HARDCODED_INSTITUTION_DATA
                   \<and> (\<forall>kd \<in> set HARDCODED_INSTITUTION_DATA.
                         \<not> (lower (normalized_name institution_name) = lower (fst kd)
                            \<or> contains (lower (fst kd))
                                 (lower (normalized_name institution_name)))))"
proof -
  let ?n = "normalized_name institution_name"
  have fb: "get_institution_info w institution_name = hardcoded_fallback institution_name ?n"
    using failed_no_scrape[of w institution_name, OF assms] by (rule fallback_when_no_scrape)
  have exact: "\<forall>details. map_of HARDCODED_INSTITUTION_DATA ?n = Some details
               \<longrightarrow> get_institution_info w institution_name = Inr details"
    using fb by (simp add: hardcoded_fallback_def)
  have loop: "(\<lambda>kd. lower ?n = lower (fst kd) \<or> contains (lower (fst kd)) (lower ?n))
              = (\<lambda>kd. contains (lower (fst kd)) (lower ?n))"
    by (auto simp: contains_self)
  have first: "\<forall>key details.
               find (\<lambda>kd. lower ?n = lower (fst kd) \<or> contains (lower (fst kd)) (lower ?n))
                 HARDCODED_INSTITUTION_DATA = Some (key, details)
               \<longrightarrow> get_institution_info w institution_name = Inr details"
    unfolding loop using fb first_substring_entry by simp
  have failure: "e = ValueError (''No data available for '' @ [CHR 0x27] @ institution_name
                                     @ [CHR 0x27] @ '' from web or hardcoded sources.'')
                   \<and> ?n \<notin> fst ` set HARDCODED_INSTITUTION_DATA
                   \<and> (\<forall>kd \<in> set HARDCODED_INSTITUTION_DATA.
                         \<not> (lower ?n = lower (fst kd) \<or> contains (lower (fst kd)) (lower ?n)))"
    if "get_institution_info w institution_name = Inl e" for e
  proof -
    from that fb have h: "hardcoded_fallback institution_name ?n = Inl e" by simp
    then have miss: "map_of HARDCODED_INSTITUTION_DATA ?n = None"
      by (simp add: hardcoded_fallback_def split: option.splits)
    with h have none: "find (alias_match ?n) HARDCODED_INSTITUTION_DATA = None"
      by (simp add: hardcoded_fallback_def split: option.splits prod.splits)
    from h miss none have "e = ValueError (not_found_message institution_name)"
      by (simp add: hardcoded_fallback_def)
    moreover from miss have "?n \<notin> fst ` set HARDCODED_INSTITUTION_DATA"
      by (simp add: map_of_eq_None_iff)
    moreover from none have "\<forall>kd \<in> set HARDCODED_INSTITUTION_DATA.
        \<not> (lower ?n = lower (fst kd) \<or> contains (lower (fst kd)) (lower ?n))"
      by (auto simp: find_None_iff alias_match_def)
    ultimately show ?thesis by (simp add: not_found_message_def)
  qed
  from exact first failure show ?thesis by blast
qed

theorem scrape_errors_not_surfaced_witness:
  "get_institution_info not_found_web ''stanford university'' = Inr stanford_details
   \<and> get_institution_info not_found_web ''indian institute of science'' = Inr iisc_details
   \<and> get_institution_info not_found_web ''atlantis''
       = Inl (ValueError ''No data available for 'atlantis' from web or hardcoded sources.'')
   \<and> normalized_name ''atlantis'' \<notin> fst ` set HARDCODED_INSTITUTION_DATA"
proof -
  have failed: "scrape_failed (not_found_web (wikipedia_url (normalized_name nm)))" for nm
    by (simp add: not_found_web_def)
  have n: "normalized_name ''stanford university'' = ''Stanford University''"
    by code_simp
  have hit: "map_of HARDCODED_INSTITUTION_DATA (normalized_name ''stanford university'')
             = Some stanford_details"
    unfolding n by (simp add: HARDCODED_INSTITUTION_DATA_def)
  have r1: "get_institution_info not_found_web ''stanford university'' = Inr stanford_details"
    using scrape_errors_not_surfaced[of not_found_web "''stanford university''", OF failed] hit
    by blast
  have m: "lower (normalized_name ''indian institute of science'')
           = ''indian institute of science''"
    by code_simp
  have k: "find (\<lambda>k'. ''indian institute of science'' = lower k'
                      \<or> contains (lower k') ''indian institute of science'') catalog_keys
           = Some ''Indian Institute of Science''"
    by code_simp
  have "map_option fst (find (\<lambda>kd. ''indian institute of science'' = lower (fst kd)
                      \<or> contains (lower (fst kd)) ''indian institute of science'')
           HARDCODED_INSTITUTION_DATA) = Some ''Indian Institute of Science''"
    using find_on_keys[of "\<lambda>k'. ''indian institute of science'' = lower k'
                      \<or> contains (lower k') ''indian institute of science''"
                      HARDCODED_INSTITUTION_DATA]
      keys_of_catalog k by simp
  then obtain d where f: "find (\<lambda>kd. ''indian institute of science'' = lower (fst kd)
                      \<or> contains (lower (fst kd)) ''indian institute of science'')
           HARDCODED_INSTITUTION_DATA = Some (''Indian Institute of Science'', d)"
    by auto
  then have "(''Indian Institute of Science'', d) \<in> set HARDCODED_INSTITUTION_DATA"
    by (auto simp: find_Some_iff)
  then have "map_of HARDCODED_INSTITUTION_DATA ''Indian Institute of Science'' = Some d"
    using distinct_keys by simp
  then have "d = iisc_details" by (simp add: HARDCODED_INSTITUTION_DATA_def)
  with f m have f': "find (\<lambda>kd. lower (normalized_name ''indian institute of science'')
                            = lower (fst kd)
                      \<or> contains (lower (fst kd))
                           (lower (normalized_name ''indian institute of science'')))
           HARDCODED_INSTITUTION_DATA = Some (''Indian Institute of Science'', iisc_details)"
    by simp
  have r2: "get_institution_info not_found_web ''indian institute of science''
            = Inr iisc_details"
    using scrape_errors_not_surfaced[of not_found_web "''indian institute of science''",
        OF failed] f'
    by blast
  have r3: "get_institution_info not_found_web ''atlantis''
       = Inl (ValueError ''No data available for 'atlantis' from web or hardcoded sources.'')"
    by code_simp
  have r4: "normalized_name ''atlantis'' \<notin> fst ` set HARDCODED_INSTITUTION_DATA"
    using scrape_errors_not_surfaced[of not_found_web "''atlantis''", OF failed] r3
    by blast
  from r1 r2 r3 r4 show ?thesis by simp
qed

subsection \<open>The completeness gate\<close>

text \<open>
  Claim C4.  A record scraped for the normalized name is the result of
  \<^const>\<open>get_institution_info\<close> if and only if its summary differs from
  "No summary found." and its founding year differs from "Not Available"; when either
  test fails the result is what the static stages give for the name, which does not
  depend on the scraped record.
\<close>

theorem completeness_gate:
  assumes "fetch_from_wikipedia w (normalized_name institution_name) = Some wiki_details"
  shows "(get_institution_info w institution_name = Inr wiki_details
            \<longleftrightarrow> summary wiki_details \<noteq> ''No summary found.''
                \<and> founded_year wiki_details \<noteq> ''Not Available'')
         \<and> (\<not> (summary wiki_details \<noteq> ''No summary found.''
                \<and> founded_year wiki_details \<noteq> ''Not Available'')
              \<longrightarrow> get_institution_info w institution_name
                    = hardcoded_fallback institution_name (normalized_name institution_name))"
proof -
  have gate: "complete wiki_details \<longleftrightarrow> summary wiki_details \<noteq> ''No summary found.''
                \<and> founded_year wiki_details \<noteq> ''Not Available''"
    by (simp add: complete_def no_summary_def not_available_def)
  show ?thesis
  proof (cases "complete wiki_details")
    case True
    then show ?thesis using assms gate by (simp add: get_institution_info_def)
  next
    case False
    then have fb: "get_institution_info w institution_name
                = hardcoded_fallback institution_name (normalized_name institution_name)"
      using assms by (simp add: get_institution_info_def)
    have "get_institution_info w institution_name \<noteq> Inr wiki_details"
      using fallback_complete[of institution_name "normalized_name institution_name" wiki_details]
        False fb by auto
    then show ?thesis using False gate fb by simp
  qed
qed

theorem completeness_gate_witness:
  "get_institution_info
     (serving (article [(Some ''Established'', Some ''1885'')] [''A private university.'']))
     ''stanford university''
   = Inr \<lparr>name = ''Stanford University'', founder = ''Not Available'',
          founded_year = ''1885'', branches = [], employees = ''Not Available'',
          summary = ''A private university.''\<rparr>
   \<and> get_institution_info
     (serving (article [(Some ''Founder'', Some ''Leland Stanford'')] [''A private university.'']))
     ''stanford university''
   = hardcoded_fallback ''stanford university'' (normalized_name ''stanford university'')"
proof -
  have f1: "fetch_from_wikipedia
      (serving (article [(Some ''Established'', Some ''1885'')] [''A private university.'']))
      (normalized_name ''stanford university'')
    = Some \<lparr>name = ''Stanford University'', founder = ''Not Available'',
          founded_year = ''1885'', branches = [], employees = ''Not Available'',
          summary = ''A private university.''\<rparr>"
    by code_simp
  have f2: "fetch_from_wikipedia
      (serving (article [(Some ''Founder'', Some ''Leland Stanford'')] [''A private university.'']))
      (normalized_name ''stanford university'')
    = Some \<lparr>name = ''Stanford University'', founder = ''Leland Stanford'',
          founded_year = ''Not Available'', branches = [], employees = ''Not Available'',
          summary = ''A private university.''\<rparr>"
    by code_simp
  show ?thesis
    using completeness_gate[OF f1] completeness_gate[OF f2] by simp
qed

subsection \<open>Loader dispatch\<close>

text \<open>
  Claim C1 (as amended).  \<^const>\<open>setup_doc_qa\<close> has no check of the file type.  The type
  "pdf" selects the PDF loader and every other type, inside or outside the upload filter
  of the page, selects the plain-text loader, so a call with a type other than "pdf"
  behaves exactly as the call with "txt".  The call returns a chain exactly when the
  embeddings constructor, the selected loader, the vector store and the constructor of the
  generation model all return, and the chain is built from their results.  Every failure
  is an exception raised by one of these four, and an exception of the selected loader is
  passed on unchanged.
\<close>

theorem loader_dispatch:
  "(file_type \<noteq> ''pdf'' \<longrightarrow>
      setup_doc_qa env caps file_path file_type = setup_doc_qa env caps file_path ''txt'')
   \<and> (\<forall>c. setup_doc_qa env caps file_path file_type = Inr c \<longleftrightarrow>
          (\<exists>embeddings documents db l.
              CohereEmbeddings caps (env ''COHERE_API_KEY'') = Inr embeddings
            \<and> load caps (if file_type = ''pdf'' then PyPDFLoader file_path
                          else TextLoader file_path) = Inr documents
            \<and> FAISS_from_documents caps (split_documents caps 1000 200 documents) embeddings
                = Inr db
            \<and> Cohere caps (env ''COHERE_API_KEY'') = Inr l
            \<and> c = RetrievalQA l db))
   \<and> (\<forall>e. setup_doc_qa env caps file_path file_type = Inl e \<longrightarrow>
          CohereEmbeddings caps (env ''COHERE_API_KEY'') = Inl e
        \<or> load caps (if file_type = ''pdf'' then PyPDFLoader file_path
                      else TextLoader file_path) = Inl e
        \<or> (\<exists>embeddings documents.
               CohereEmbeddings caps (env ''COHERE_API_KEY'') = Inr embeddings
             \<and> load caps (if file_type = ''pdf'' then PyPDFLoader file_path
                           else TextLoader file_path) = Inr documents
             \<and> FAISS_from_documents caps (split_documents caps 1000 200 documents) embeddings
                 = Inl e)
        \<or> Cohere caps (env ''COHERE_API_KEY'') = Inl e)
   \<and> (\<forall>embeddings e.
          CohereEmbeddings caps (env ''COHERE_API_KEY'') = Inr embeddings
        \<and> load caps (if file_type = ''pdf'' then PyPDFLoader file_path
                      else TextLoader file_path) = Inl e
        \<longrightarrow> setup_doc_qa env caps file_path file_type = Inl e)"
  by (auto simp: setup_doc_qa_def build_chain_def Let_def split: sum.splits)

theorem loader_dispatch_witness:
  "setup_doc_qa with_key text_only_caps ''/tmp/upload'' ''xyz''
     = setup_doc_qa with_key text_only_caps ''/tmp/upload'' ''txt''
   \<and> setup_doc_qa with_key text_only_caps ''/tmp/upload'' ''docx''
     = Inr (RetrievalQA () [''plain text payload''])
   \<and> setup_doc_qa with_key text_only_caps ''/tmp/upload'' ''pdf''
     = Inl (ProviderError ''not a PDF file'')"
proof -
  have emb: "CohereEmbeddings text_only_caps (with_key ''COHERE_API_KEY'') = Inr ()"
    by (simp add: text_only_caps_def)
  have llm: "Cohere text_only_caps (with_key ''COHERE_API_KEY'') = Inr ()"
    by (simp add: text_only_caps_def)
  have plain: "load text_only_caps (TextLoader ''/tmp/upload'') = Inr [''plain text payload'']"
    by (simp add: text_only_caps_def)
  have pdf: "load text_only_caps (PyPDFLoader ''/tmp/upload'')
             = Inl (ProviderError ''not a PDF file'')"
    by (simp add: text_only_caps_def)
  have store: "FAISS_from_documents text_only_caps
                 (split_documents text_only_caps 1000 200 [''plain text payload'']) ()
               = Inr [''plain text payload'']"
    by (simp add: text_only_caps_def)
  have r1: "setup_doc_qa with_key text_only_caps ''/tmp/upload'' ''xyz''
     = setup_doc_qa with_key text_only_caps ''/tmp/upload'' ''txt''"
    using loader_dispatch[where file_type = "''xyz''" and env = with_key
        and caps = text_only_caps and file_path = "''/tmp/upload''"]
    by simp
  have r2: "setup_doc_qa with_key text_only_caps ''/tmp/upload'' ''docx''
     = Inr (RetrievalQA () [''plain text payload''])"
    using loader_dispatch[where file_type = "''docx''" and env = with_key
        and caps = text_only_caps and file_path = "''/tmp/upload''"]
      emb llm plain store
    by auto
  have r3: "setup_doc_qa with_key text_only_caps ''/tmp/upload'' ''pdf''
     = Inl (ProviderError ''not a PDF file'')"
    using loader_dispatch[where file_type = "''pdf''" and env = with_key
        and caps = text_only_caps and file_path = "''/tmp/upload''"]
      emb pdf
    by auto
  from r1 r2 r3 show ?thesis by simp
qed

text \<open>
  The claim as stated fails: with libraries whose text loader accepts the file, the type
  "xyz" is ingested successfully, its payload read as plain text.
\<close>

theorem unsupported_type_accepted:
  "setup_doc_qa with_key text_only_caps ''/tmp/upload'' ''xyz''
   = Inr (RetrievalQA () [''plain text payload''])"
  by (simp add: setup_doc_qa_def build_chain_def text_only_caps_def with_key_def)

subsection \<open>The fixed-corpus pipeline after a failed start\<close>

text \<open>
  Claim C8.  When the API key is missing, the set-up raises, the module binds
  \<^verbatim>\<open>ipc_qa\<close> to \<^verbatim>\<open>None\<close>, and the call made by the page then raises a
  \<open>TypeError\<close> about calling \<^verbatim>\<open>None\<close>: neither a generation nor an embedding failure,
  and without the cause of the failed start.
\<close>

theorem uninitialised_pipeline_call:
  "ipc_qa without_key caps = None
   \<and> call_ipc_qa caps (ipc_qa without_key caps) ipc_question
       = Inl (TypeError ([CHR 0x27] @ ''NoneType'' @ [CHR 0x27] @ '' object is not callable''))"
  by (simp add: ipc_qa_def setup_ipc_qa_def without_key_def call_ipc_qa_def none_not_callable_def)

subsection \<open>Abbreviations against the catalog\<close>

text \<open>
  Claim C3.  With the scrape stage yielding nothing, neither "iit bombay" nor "IIT BOMBAY"
  is resolved: the normalized name "Iit Bombay" is no catalog key and, lower-cased, is not
  contained in any lower-cased key, so \<^const>\<open>get_institution_info\<close> raises the
  \<open>ValueError\<close> of exhaustion.
\<close>

theorem abbreviation_not_resolved:
  "get_institution_info offline ''iit bombay''
     = Inl (ValueError ''No data available for 'iit bombay' from web or hardcoded sources.'')
   \<and> get_institution_info offline ''IIT BOMBAY''
     = Inl (ValueError ''No data available for 'IIT BOMBAY' from web or hardcoded sources.'')"
  by code_simp

subsection \<open>Coverage of the chunker\<close>

declare walk.simps [simp del]

lemma walk_covers:
  assumes "overlap < chunk_size" "start \<le> p" "p < length T"
  shows "\<exists>c \<in> set (walk T chunk_size overlap i start).
           source_offset c \<le> p \<and> p < source_offset c + length (chunk_text c)"
  using assms
proof (induction T chunk_size overlap i start rule: walk.induct)
  case (1 T chunk_size overlap i start)
  show ?case
  proof (cases "length T \<le> start + chunk_size")
    case True
    then show ?thesis using "1.prems" by (subst walk.simps) auto
  next
    case False
    show ?thesis
    proof (cases "p < start + chunk_size")
      case True
      then show ?thesis using False "1.prems" by (subst walk.simps) auto
    next
      case far: False
      have "\<exists>c \<in> set (walk T chunk_size overlap (i + 1) (start + (chunk_size - overlap))).
           source_offset c \<le> p \<and> p < source_offset c + length (chunk_text c)"
        using "1.IH" False far "1.prems" by auto
      then show ?thesis using False "1.prems" by (subst walk.simps) auto
    qed
  qed
qed

lemma walk_chunks:
  assumes "c \<in> set (walk T chunk_size overlap i start)"
  shows "chunk_text c = take chunk_size (drop (source_offset c) T)"
  using assms
proof (induction T chunk_size overlap i start rule: walk.induct)
  case (1 T chunk_size overlap i start)
  show ?case
  proof (cases "length T \<le> start + chunk_size \<or> chunk_size \<le> overlap")
    case True
    then have "walk T chunk_size overlap i start
        = [\<lparr>chunk_text = take chunk_size (drop start T), sequence_index = i,
             source_offset = start\<rparr>]"
      by (subst walk.simps) simp
    with "1.prems" show ?thesis by simp
  next
    case False
    then have "walk T chunk_size overlap i start
        = \<lparr>chunk_text = take chunk_size (drop start T), sequence_index = i,
             source_offset = start\<rparr>
           # walk T chunk_size overlap (i + 1) (start + (chunk_size - overlap))"
      by (subst walk.simps) simp
    with "1.prems" consider
      "c = \<lparr>chunk_text = take chunk_size (drop start T), sequence_index = i,
             source_offset = start\<rparr>"
      | "c \<in> set (walk T chunk_size overlap (i + 1) (start + (chunk_size - overlap)))"
      by auto
    then show ?thesis
    proof cases
      case 1
      then show ?thesis by simp
    next
      case 2
      from "1.IH"[OF False this] show ?thesis .
    qed
  qed
qed

lemma walk_positions:
  assumes "j < length (walk T chunk_size overlap i start)"
  shows "sequence_index (walk T chunk_size overlap i start ! j) = i + j
         \<and> source_offset (walk T chunk_size overlap i start ! j) = start + j * (chunk_size - overlap)"
  using assms
proof (induction T chunk_size overlap i start arbitrary: j rule: walk.induct)
  case (1 T chunk_size overlap i start)
  show ?case
  proof (cases "length T \<le> start + chunk_size \<or> chunk_size \<le> overlap")
    case True
    then have w: "walk T chunk_size overlap i start
        = [\<lparr>chunk_text = take chunk_size (drop start T), sequence_index = i,
             source_offset = start\<rparr>]"
      by (subst walk.simps) simp
    with "1.prems" show ?thesis by simp
  next
    case False
    then have w: "walk T chunk_size overlap i start
        = \<lparr>chunk_text = take chunk_size (drop start T), sequence_index = i,
             source_offset = start\<rparr>
           # walk T chunk_size overlap (i + 1) (start + (chunk_size - overlap))"
      by (subst walk.simps) simp
    show ?thesis
    proof (cases j)
      case 0
      then show ?thesis using w by simp
    next
      case (Suc k)
      with "1.prems" w have "k < length (walk T chunk_size overlap (i + 1) (start + (chunk_size - overlap)))"
        by simp
      from "1.IH"[OF False this] show ?thesis using w Suc by simp
    qed
  qed
qed

text \<open>
  Claim C6.  For every text, the chunker with chunk size 1000 and overlap 200 returns a
  list of chunks such that every character position of the text lies inside some chunk,
  every chunk is the slice of at most 1000 characters of the text starting at its offset,
  and the chunk with index \<open>j\<close> starts at offset \<open>j * (1000 - 200)\<close>: the chunks come at
  the stride and in document order.
\<close>

theorem chunk_coverage:
  "\<exists>chunks. split_text T 1000 200 = Some chunks
     \<and> (\<forall>p < length T. \<exists>c \<in> set chunks.
            source_offset c \<le> p \<and> p < source_offset c + length (chunk_text c))
     \<and> (\<forall>c \<in> set chunks. chunk_text c = take 1000 (drop (source_offset c) T))
     \<and> (\<forall>j < length chunks. sequence_index (chunks ! j) = j
            \<and> source_offset (chunks ! j) = j * (1000 - 200))"
proof -
  have s: "split_text T 1000 200 = Some (walk T 1000 200 0 0)"
    by (simp add: split_text_def)
  have cov: "\<forall>p < length T. \<exists>c \<in> set (walk T 1000 200 0 0).
            source_offset c \<le> p \<and> p < source_offset c + length (chunk_text c)"
    using walk_covers[of 200 1000 0 _ T 0] by simp
  have texts: "\<forall>c \<in> set (walk T 1000 200 0 0). chunk_text c = take 1000 (drop (source_offset c) T)"
    using walk_chunks by blast
  have pos: "\<forall>j < length (walk T 1000 200 0 0). sequence_index (walk T 1000 200 0 0 ! j) = j
            \<and> source_offset (walk T 1000 200 0 0 ! j) = j * (1000 - 200)"
    using walk_positions[of _ T 1000 200 0 0] by simp
  show ?thesis using s cov texts pos by blast
qed

theorem chunk_coverage_witness:
  "\<exists>chunks. split_text (replicate 1200 CHR ''a'') 1000 200 = Some chunks
     \<and> (\<exists>c \<in> set chunks. source_offset c \<le> 1100 \<and> 1100 < source_offset c + length (chunk_text c))"
proof -
  from chunk_coverage[of "replicate 1200 CHR ''a''"] obtain chunks where
    s: "split_text (replicate 1200 CHR ''a'') 1000 200 = Some chunks"
    and cov: "\<forall>p < length (replicate 1200 CHR ''a''). \<exists>c \<in> set chunks.
            source_offset c \<le> p \<and> p < source_offset c + length (chunk_text c)"
    by blast
  have "(1100::nat) < length (replicate 1200 CHR ''a'')" by simp
  with cov have "\<exists>c \<in> set chunks. source_offset c \<le> 1100 \<and> 1100 < source_offset c + length (chunk_text c)"
    by blast
  with s show ?thesis by blast
qed

subsection \<open>The founding year read off the infobox\<close>

text \<open>
  What the model of the regular expression returns is a run of four digits of the text,
  with no word character directly before or after it.
\<close>

lemma search_year_from_sound:
  "search_year_from prev s = Some y \<Longrightarrow>
   \<exists>pre post. s = pre @ y @ post \<and> length y = 4 \<and> list_all isdigit y
     \<and> (if pre = [] then \<not> prev else \<not> isword (last pre))
     \<and> (post = [] \<or> \<not> isword (hd post))"
proof (induction s arbitrary: prev)
  case Nil
  then show ?case by simp
next
  case (Cons c cs)
  show ?case
  proof (cases "\<not> prev \<and> year_here (c # cs)")
    case True
    with Cons.prems have y: "y = take 4 (c # cs)" by simp
    from True have yh: "year_here (c # cs)" by simp
    have "c # cs = [] @ y @ drop 4 (c # cs)" using y by simp
    moreover have "length y = 4" using y yh by (simp add: year_here_def)
    moreover have "list_all isdigit y" using y yh by (simp add: year_here_def)
    moreover have "drop 4 (c # cs) = [] \<or> \<not> isword (hd (drop 4 (c # cs)))"
      using yh by (auto simp: year_here_def split: list.splits)
    ultimately show ?thesis using True by (metis (full_types))
  next
    case False
    with Cons.prems have "search_year_from (isword c) cs = Some y" by auto
    from Cons.IH[OF this] obtain pre post where
      p: "cs = pre @ y @ post" "length y = 4" "list_all isdigit y"
         "if pre = [] then \<not> isword c else \<not> isword (last pre)"
         "post = [] \<or> \<not> isword (hd post)"
      by blast
    have "c # cs = (c # pre) @ y @ post" using p(1) by simp
    moreover have "\<not> isword (last (c # pre))" using p(4) by (auto split: if_splits)
    ultimately show ?thesis using p(2,3,5)
      by (metis (full_types) list.distinct(1))
  qed
qed

lemma parse_row_keeps_year:
  "\<not> founded_row row \<Longrightarrow> founded_year (parse_row st row) = founded_year st"
proof (cases row)
  case (Pair h d)
  assume nf: "\<not> founded_row row"
  show ?thesis
  proof (cases h)
    case None
    with Pair show ?thesis by simp
  next
    case (Some header_text)
    show ?thesis
    proof (cases d)
      case None
      with Pair Some show ?thesis by simp
    next
      case (Some data_text)
      with Pair \<open>h = Some header_text\<close> nf show ?thesis
        by (auto simp: founded_row_def)
    qed
  qed
qed

lemma foldl_keeps_year:
  "list_all (\<lambda>row. \<not> founded_row row) rows \<Longrightarrow>
   founded_year (foldl parse_row st rows) = founded_year st"
  by (induction rows arbitrary: st) (simp_all add: parse_row_keeps_year)

lemma parse_row_sets_year:
  assumes "contains header_text ''Established'' \<or> contains header_text ''Founded''"
    and "\<not> contains header_text ''Founder''"
  shows "founded_year (parse_row st (Some header_text, Some data_text)) = extract_year data_text"
  using assms by auto

lemma scrape_page_year:
  assumes "scrape_page nm sp = Some r" and "infobox sp = Some rows"
  shows "founded_year r
         = founded_year (foldl parse_row
              \<lparr>name = nm, founder = not_available, founded_year = not_available,
               branches = [], employees = not_available, summary = no_summary\<rparr> rows)"
  using assms
  by (auto simp: scrape_page_def Let_def split: if_splits option.splits)

lemma unlisted_row_unchanged:
  assumes "\<forall>l \<in> set listed_labels. \<not> contains header_text l"
  shows "parse_row st (Some header_text, dt) = st"
  using assms by (cases dt) (simp_all add: listed_labels_def)

text \<open>
  Claim C7 (as amended).  Take an infobox row whose header contains "Established" or
  "Founded" and does not contain "Founder", and let no later row be of that kind.  Then
  the founding year of the scraped record is the first match of the year pattern in that
  row's value text (four digits between word boundaries) when there is one, and the value
  text itself otherwise.  A row whose header contains none of the listed labels leaves
  every field unchanged.
\<close>

theorem founded_year_from_row:
  assumes "scrape_page nm sp = Some r"
    and "infobox sp = Some (pre @ (Some header_text, Some data_text) # post)"
    and "contains header_text ''Established'' \<or> contains header_text ''Founded''"
    and "\<not> contains header_text ''Founder''"
    and "list_all (\<lambda>row. \<not> founded_row row) post"
  shows "founded_year r = (case search_year data_text of Some y \<Rightarrow> y | None \<Rightarrow> data_text)
         \<and> (\<forall>st h dt. (\<forall>l \<in> set listed_labels. \<not> contains h l)
               \<longrightarrow> parse_row st (Some h, dt) = st)"
proof -
  have "founded_year r = extract_year data_text"
    using scrape_page_year[OF assms(1,2)] foldl_keeps_year[OF assms(5)]
      parse_row_sets_year[OF assms(3,4)]
    by simp
  then show ?thesis
    using unlisted_row_unchanged by (simp add: extract_year_def)
qed

theorem founded_year_from_row_witness:
  "scrape_page ''Indian Institute Of Science''
     (article [(Some ''Established'', Some ''1909''), (Some ''Founded'', Some ''27 May 1911''),
               (Some ''Motto'', Some ''none'')] [''A public university.''])
   = Some \<lparr>name = ''Indian Institute Of Science'', founder = ''Not Available'',
           founded_year = ''1911'', branches = [], employees = ''Not Available'',
           summary = ''A public university.''\<rparr>
   \<and> founded_year \<lparr>name = ''Indian Institute Of Science'', founder = ''Not Available'',
           founded_year = ''1911'', branches = [], employees = ''Not Available'',
           summary = ''A public university.''\<rparr>
     = (case search_year ''27 May 1911'' of Some y \<Rightarrow> y | None \<Rightarrow> ''27 May 1911'')
   \<and> parse_row iisc_details (Some ''Motto'', Some ''none'') = iisc_details"
proof -
  have p: "scrape_page ''Indian Institute Of Science''
     (article [(Some ''Established'', Some ''1909''), (Some ''Founded'', Some ''27 May 1911''),
               (Some ''Motto'', Some ''none'')] [''A public university.''])
   = Some \<lparr>name = ''Indian Institute Of Science'', founder = ''Not Available'',
           founded_year = ''1911'', branches = [], employees = ''Not Available'',
           summary = ''A public university.''\<rparr>"
    by code_simp
  have i: "infobox (article [(Some ''Established'', Some ''1909''),
               (Some ''Founded'', Some ''27 May 1911''),
               (Some ''Motto'', Some ''none'')] [''A public university.''])
     = Some ([(Some ''Established'', Some ''1909'')]
             @ (Some ''Founded'', Some ''27 May 1911'') # [(Some ''Motto'', Some ''none'')])"
    by (simp add: article_def)
  have h: "contains ''Founded'' ''Established'' \<or> contains ''Founded'' ''Founded''"
    by simp
  have nf: "\<not> contains ''Founded'' ''Founder''"
    by simp
  have rest: "list_all (\<lambda>row. \<not> founded_row row) [(Some ''Motto'', Some ''none'')]"
    by (simp add: founded_row_def)
  have un: "\<forall>l \<in> set listed_labels. \<not> contains ''Motto'' l"
    by (simp add: listed_labels_def)
  show ?thesis
    using founded_year_from_row[OF p i h nf rest] p un by blast
qed

text \<open>
  The claim as stated fails twice: a header that also contains "Founder" is taken by the
  first branch of the chain, so the founding year stays "Not Available" although the value
  text holds a year; and of two matching rows the later one decides the record.
\<close>

theorem founded_row_counterexample:
  "contains ''Founder and Founded'' ''Founded''
   \<and> search_year ''Jamsetji Tata, 1909'' = Some ''1909''
   \<and> map_option founded_year
       (scrape_page ''Indian Institute Of Science''
          (article [(Some ''Founder and Founded'', Some ''Jamsetji Tata, 1909'')]
             [''A public university.'']))
     = Some ''Not Available''
   \<and> contains ''Established'' ''Established''
   \<and> map_option founded_year
       (scrape_page ''Indian Institute Of Science''
          (article [(Some ''Established'', Some ''1909''),
                    (Some ''Founded'', Some ''27 May 1911'')] [''A public university.'']))
     = Some ''1911''"
  by code_simp

subsection \<open>Substring matches against the catalog\<close>

text \<open>
  Claim C9.  When the scrape stage yields no accepted record and the normalized name,
  lower-cased, is contained in some lower-cased catalog key, \<^const>\<open>get_institution_info\<close>
  returns the record of the first such key in catalog order.  The empty string is
  contained in every key, so a name that is empty or consists of whitespace only resolves
  to the first entry of the catalog, "Indian Institute of Technology Bombay", and does not
  fail.
\<close>

theorem substring_alias_resolution:
  assumes "no_accepted_scrape w institution_name"
  shows "(\<forall>key details.
            find (\<lambda>kd. contains (lower (fst kd)) (lower (normalized_name institution_name)))
              HARDCODED_INSTITUTION_DATA = Some (key, details)
            \<longrightarrow> get_institution_info w institution_name = Inr details)
         \<and> (list_all isspace institution_name
            \<longrightarrow> get_institution_info w institution_name = Inr iit_bombay_details)"
proof -
  have fb: "get_institution_info w institution_name
            = hardcoded_fallback institution_name (normalized_name institution_name)"
    using assms by (rule fallback_when_no_scrape)
  have first: "\<forall>key details.
            find (\<lambda>kd. contains (lower (fst kd)) (lower (normalized_name institution_name)))
              HARDCODED_INSTITUTION_DATA = Some (key, details)
            \<longrightarrow> get_institution_info w institution_name = Inr details"
    using fb first_substring_entry by simp
  have blank: "get_institution_info w institution_name = Inr iit_bombay_details"
    if "list_all isspace institution_name"
  proof -
    have "normalized_name institution_name = []" using that by (rule normalized_blank)
    then have "find (\<lambda>kd. contains (lower (fst kd)) (lower (normalized_name institution_name)))
              HARDCODED_INSTITUTION_DATA
          = Some (''Indian Institute of Technology Bombay'', iit_bombay_details)"
      by (simp add: lower_def contains_empty HARDCODED_INSTITUTION_DATA_def)
    with first show ?thesis by blast
  qed
  from first blank show ?thesis by blast
qed

theorem substring_alias_resolution_witness:
  "get_institution_info offline ''nehru'' = Inr jnu_details
   \<and> get_institution_info offline ''   '' = Inr iit_bombay_details
   \<and> get_institution_info offline [] = Inr iit_bombay_details"
proof -
  have n: "lower (normalized_name ''nehru'') = ''nehru''" by code_simp
  have k: "find (\<lambda>k'. contains (lower k') ''nehru'') catalog_keys
           = Some ''Jawaharlal Nehru University''"
    by code_simp
  have "map_option fst (find (\<lambda>kd. contains (lower (fst kd)) ''nehru'')
           HARDCODED_INSTITUTION_DATA) = Some ''Jawaharlal Nehru University''"
    using find_on_keys[of "\<lambda>k'. contains (lower k') ''nehru''" HARDCODED_INSTITUTION_DATA]
      keys_of_catalog k by simp
  then obtain d where f: "find (\<lambda>kd. contains (lower (fst kd)) ''nehru'')
           HARDCODED_INSTITUTION_DATA = Some (''Jawaharlal Nehru University'', d)"
    by auto
  then have "(''Jawaharlal Nehru University'', d) \<in> set HARDCODED_INSTITUTION_DATA"
    by (auto simp: find_Some_iff)
  then have "map_of HARDCODED_INSTITUTION_DATA ''Jawaharlal Nehru University'' = Some d"
    using distinct_keys by simp
  then have "d = jnu_details" by (simp add: HARDCODED_INSTITUTION_DATA_def)
  with f have f': "find (\<lambda>kd. contains (lower (fst kd)) (lower (normalized_name ''nehru'')))
           HARDCODED_INSTITUTION_DATA = Some (''Jawaharlal Nehru University'', jnu_details)"
    using n by simp
  have b1: "list_all isspace ''   ''" by code_simp
  have b2: "list_all isspace []" by simp
  show ?thesis
    using substring_alias_resolution[OF offline_no_scrape, of "''nehru''"]
      substring_alias_resolution[OF offline_no_scrape, of "''   ''"]
      substring_alias_resolution[OF offline_no_scrape, of "[]"] f' b1 b2
    by blast
qed

subsection \<open>Case variants of the catalog keys\<close>










end
